theory Spec2Isabelle
  imports Complex_Main "HOL-Library.AList"
begin

section \<open>JavaScript values as server.js sees them\<close>

text \<open>
  Every value that server.js handles comes out of a JSON parser: the request body
  (express.json()), the content of users.json (JSON.parse) and the payload of a verified
  token. A number is the value of a double that a JSON text can denote: a finite one (its
  two zeros are one value, as \<open>===\<close> sees them) or an infinity (an overflowing
  literal); NaN has no JSON text. \<open>JUndefined\<close> is the value of a missing property.
  An object is the list of its own properties in insertion order.
\<close>

datatype jsnum = Finite rat | PosInf | NegInf

datatype jsval =
    JUndefined
  | JNull
  | JBool bool
  | JNum jsnum
  | JStr string
  | JArr "jsval list"
  | JObj "(string \<times> jsval) list"

datatype error = TypeError | LibraryError

text \<open>The conversion to boolean of \<open>!v\<close> and \<open>if (v)\<close>.\<close>

fun truthy :: "jsval \<Rightarrow> bool" where
  "truthy JUndefined = False"
| "truthy JNull = False"
| "truthy (JBool b) = b"
| "truthy (JNum n) = (n \<noteq> Finite 0)"
| "truthy (JStr s) = (s \<noteq> [])"
| "truthy (JArr xs) = True"
| "truthy (JObj fs) = True"

text \<open>
  \<open>a === b\<close>. Primitives compare by value. Two objects (or arrays) are equal only when
  they are the same allocation; the two sides of every comparison in server.js come from
  two different parses (a stored record against the request body or the token payload), so
  an object or array is never equal to the other side.
\<close>

fun strict_eq :: "jsval \<Rightarrow> jsval \<Rightarrow> bool" where
  "strict_eq JUndefined JUndefined = True"
| "strict_eq JNull JNull = True"
| "strict_eq (JBool a) (JBool b) = (a = b)"
| "strict_eq (JNum a) (JNum b) = (a = b)"
| "strict_eq (JStr a) (JStr b) = (a = b)"
| "strict_eq _ _ = False"

text \<open>The own property \<open>k\<close> of an object given by its property list.\<close>

definition own_prop :: "(string \<times> jsval) list \<Rightarrow> string \<Rightarrow> jsval" where
  "own_prop fs k = (case map_of fs k of None \<Rightarrow> JUndefined | Some v \<Rightarrow> v)"

text \<open>
  The property read \<open>v.k\<close>, for the names server.js reads (username, password, email):
  a TypeError on undefined and null, the own property of an object, and undefined on a
  boolean, number, string or array, none of which has a property of these names.
\<close>

fun get_prop :: "jsval \<Rightarrow> string \<Rightarrow> error + jsval" where
  "get_prop JUndefined k = Inl TypeError"
| "get_prop JNull k = Inl TypeError"
| "get_prop (JObj fs) k = Inr (own_prop fs k)"
| "get_prop v k = Inr JUndefined"

text \<open>
  The assignment \<open>v.k = x\<close>, giving \<open>v\<close> as JSON.stringify sees it afterwards. On an
  object an existing property keeps its place and a new one goes last. The file is not in
  strict mode, so the assignment to a boolean, number or string does nothing; on an array
  it adds a named property, which JSON.stringify does not write.
\<close>

fun set_prop :: "jsval \<Rightarrow> string \<Rightarrow> jsval \<Rightarrow> error + jsval" where
  "set_prop JUndefined k x = Inl TypeError"
| "set_prop JNull k x = Inl TypeError"
| "set_prop (JObj fs) k x = Inr (JObj (AList.update k x fs))"
| "set_prop v k x = Inr v"

section \<open>The environment of the server\<close>

text \<open>
  The file users.json: its text, or \<open>None\<close> when fs.readFileSync throws (the file is
  missing or cannot be read). fs.writeFileSync replaces the whole text.
\<close>

type_synonym fs = "string option"

text \<open>
  The libraries are parameters of the model. \<open>JSON_parse\<close> is \<open>None\<close> where JSON.parse
  throws; \<open>JSON_stringify v\<close> is \<open>JSON.stringify(v, null, 2)\<close>. bcrypt.compare and
  bcrypt.hash return promises, which reject (\<open>Inl\<close>) on arguments that are not strings;
  bcrypt.hash draws a random salt, so \<open>bcrypt_hash\<close> stands for the outcome of the one
  call a request makes. \<open>jwt_sign payload secret expiresIn now\<close> is the token signed at
  the time \<open>now\<close> (in seconds); \<open>jwt_verify token secret now\<close> is the decoded payload, or
  \<open>None\<close> when jwt.verify hands an error to its callback.
\<close>

record libs =
  JSON_parse :: "string \<Rightarrow> jsval option"
  JSON_stringify :: "jsval \<Rightarrow> string"
  bcrypt_compare :: "jsval \<Rightarrow> jsval \<Rightarrow> error + bool"
  bcrypt_hash :: "jsval \<Rightarrow> nat \<Rightarrow> error + string"
  jwt_sign :: "jsval \<Rightarrow> string \<Rightarrow> string \<Rightarrow> nat \<Rightarrow> string"
  jwt_verify :: "string \<Rightarrow> string \<Rightarrow> nat \<Rightarrow> jsval option"

text \<open>
  \<open>process.env.JWT_SECRET || 'supersecretkey'\<close>: a variable that is unset or empty
  gives the default.
\<close>

definition JWT_SECRET :: "string option \<Rightarrow> string" where
  "JWT_SECRET env =
     (case env of
        None \<Rightarrow> ''supersecretkey''
      | Some s \<Rightarrow> if s = [] then ''supersecretkey'' else s)"

text \<open>
  A request: the Authorization header (a string, or absent) and the own properties of
  \<open>req.body\<close>, which express.json() always leaves an object (the empty one when there is
  no JSON body).
\<close>

record request =
  authorization :: "string option"
  body :: "(string \<times> jsval) list"

datatype response = Json nat jsval | SendStatus nat

text \<open>
  What a handler does with a request: it sends a response, or it throws (an exception,
  or a rejected promise of the async handler) before sending one.
\<close>

datatype outcome = Responded response | Threw error

section \<open>readUsers\<close>

definition readUsers :: "libs \<Rightarrow> fs \<Rightarrow> jsval" where
  "readUsers L file =
     (case file of
        None \<Rightarrow> JArr []
      | Some data \<Rightarrow>
          (case JSON_parse L data of
             None \<Rightarrow> JArr []
           | Some v \<Rightarrow> v))"

section \<open>authenticateToken\<close>

text \<open>\<open>s.split(' ')\<close>: the pieces of \<open>s\<close> between single spaces; never empty.\<close>

fun split_sp :: "string \<Rightarrow> string list" where
  "split_sp [] = [[]]"
| "split_sp (c # cs) =
     (if c = CHR '' '' then [] # split_sp cs
      else (case split_sp cs of
              [] \<Rightarrow> [[c]]
            | w # ws \<Rightarrow> (c # w) # ws))"

text \<open>
  \<open>authHeader && authHeader.split(' ')[1]\<close>: \<open>None\<close> is undefined (no header, or no
  second piece), and an empty header gives the empty string itself.
\<close>

definition extract_token :: "string option \<Rightarrow> string option" where
  "extract_token authHeader =
     (case authHeader of
        None \<Rightarrow> None
      | Some h \<Rightarrow>
          if h = [] then Some []
          else if 1 < length (split_sp h) then Some (split_sp h ! 1) else None)"

text \<open>
  The middleware either answers itself or calls \<open>next()\<close> with \<open>req.user\<close> set.
  \<open>!token\<close> holds for undefined and for the empty string.
\<close>

datatype verdict = Reply response | Next jsval

definition authenticateToken :: "libs \<Rightarrow> string option \<Rightarrow> nat \<Rightarrow> request \<Rightarrow> verdict" where
  "authenticateToken L env now req =
     (case extract_token (authorization req) of
        None \<Rightarrow> Reply (SendStatus 401)
      | Some token \<Rightarrow>
          if token = [] then Reply (SendStatus 401)
          else (case jwt_verify L token (JWT_SECRET env) now of
                  None \<Rightarrow> Reply (SendStatus 403)
                | Some user \<Rightarrow> Next user))"

section \<open>POST /login\<close>

text \<open>
  The callback \<open>(user) => user.username === username\<close> of both lookups; it throws
  on an element that is null.
\<close>

definition same_username :: "jsval \<Rightarrow> jsval \<Rightarrow> error + bool" where
  "same_username user username =
     (case get_prop user ''username'' of
        Inl e \<Rightarrow> Inl e
      | Inr v \<Rightarrow> Inr (strict_eq v username))"

text \<open>
  \<open>users.find(callback)\<close> on the elements of an array: the first element whose
  callback is true, undefined when there is none.
\<close>

fun find_user :: "jsval list \<Rightarrow> jsval \<Rightarrow> error + jsval" where
  "find_user [] username = Inr JUndefined"
| "find_user (user # rest) username =
     (case same_username user username of
        Inl e \<Rightarrow> Inl e
      | Inr b \<Rightarrow> if b then Inr user else find_user rest username)"

text \<open>A value parsed from JSON that is not an array has no \<open>find\<close> to call.\<close>

definition users_find :: "jsval \<Rightarrow> jsval \<Rightarrow> error + jsval" where
  "users_find users username =
     (case users of JArr xs \<Rightarrow> find_user xs username | _ \<Rightarrow> Inl TypeError)"

definition invalid_login :: response where
  "invalid_login = Json 400 (JObj [(''message'', JStr ''Invalid username or password'')])"

definition login :: "libs \<Rightarrow> string option \<Rightarrow> nat \<Rightarrow> request \<Rightarrow> fs \<Rightarrow> outcome \<times> fs" where
  "login L env now req file =
     (let username = own_prop (body req) ''username'';
          password = own_prop (body req) ''password'';
          users = readUsers L file
      in case users_find users username of
           Inl e \<Rightarrow> (Threw e, file)
         | Inr user \<Rightarrow>
             if \<not> truthy user then (Responded invalid_login, file)
             else (case get_prop user ''password'' of
                     Inl e \<Rightarrow> (Threw e, file)
                   | Inr hash \<Rightarrow>
                       (case bcrypt_compare L password hash of
                          Inl e \<Rightarrow> (Threw e, file)
                        | Inr isMatch \<Rightarrow>
                            if \<not> isMatch then (Responded invalid_login, file)
                            else (case get_prop user ''username'' of
                                    Inl e \<Rightarrow> (Threw e, file)
                                  | Inr name \<Rightarrow>
                                      (case get_prop user ''email'' of
                                         Inl e \<Rightarrow> (Threw e, file)
                                       | Inr email \<Rightarrow>
                                           (let token = jwt_sign L (JObj [(''username'', name)])
                                                          (JWT_SECRET env) ''1h'' now
                                            in (Responded (Json 200 (JObj
                                                  [(''token'', JStr token),
                                                   (''user'', JObj [(''username'', name),
                                                                    (''email'', email)])])),
                                                file)))))))"

section \<open>GET /protected-endpoint\<close>

definition protected_endpoint :: "jsval \<Rightarrow> fs \<Rightarrow> outcome \<times> fs" where
  "protected_endpoint user file =
     (Responded (Json 200 (JObj [(''message'', JStr ''This is a protected route''),
                                 (''user'', user)])), file)"

section \<open>PUT /update-profile\<close>

text \<open>
  \<open>users.findIndex(callback)\<close> with the same callback: the index of the first
  element whose callback is true, \<open>-1\<close> when there is none. \<open>i\<close> is the index of the
  head of the list.
\<close>

fun findIndex_from :: "nat \<Rightarrow> jsval list \<Rightarrow> jsval \<Rightarrow> error + int" where
  "findIndex_from i [] username = Inr (- 1)"
| "findIndex_from i (user # rest) username =
     (case same_username user username of
        Inl e \<Rightarrow> Inl e
      | Inr b \<Rightarrow> if b then Inr (int i) else findIndex_from (Suc i) rest username)"

definition users_findIndex :: "jsval \<Rightarrow> jsval \<Rightarrow> error + int" where
  "users_findIndex users username =
     (case users of JArr xs \<Rightarrow> findIndex_from 0 xs username | _ \<Rightarrow> Inl TypeError)"

text \<open>
  \<open>users[userIndex].password = hashedPassword\<close>. Outside the array \<open>users[userIndex]\<close>
  is undefined, and the assignment throws.
\<close>

definition set_password :: "jsval \<Rightarrow> int \<Rightarrow> string \<Rightarrow> error + jsval" where
  "set_password users userIndex hashedPassword =
     (case users of
        JArr xs \<Rightarrow>
          if 0 \<le> userIndex \<and> nat userIndex < length xs
          then (case set_prop (xs ! nat userIndex) ''password'' (JStr hashedPassword) of
                  Inl e \<Rightarrow> Inl e
                | Inr user \<Rightarrow> Inr (JArr (xs[nat userIndex := user])))
          else Inl TypeError
      | _ \<Rightarrow> Inl TypeError)"

definition update_profile :: "libs \<Rightarrow> request \<Rightarrow> jsval \<Rightarrow> fs \<Rightarrow> outcome \<times> fs" where
  "update_profile L req user file =
     (let newPassword = own_prop (body req) ''newPassword''
      in case get_prop user ''username'' of
           Inl e \<Rightarrow> (Threw e, file)
         | Inr username \<Rightarrow>
             (let users = readUsers L file
              in case users_findIndex users username of
                   Inl e \<Rightarrow> (Threw e, file)
                 | Inr userIndex \<Rightarrow>
                     if userIndex = - 1
                     then (Responded (Json 404 (JObj [(''message'', JStr ''User not found'')])),
                           file)
                     else (case (if truthy newPassword
                                 then (case bcrypt_hash L newPassword 10 of
                                         Inl e \<Rightarrow> Inl e
                                       | Inr hashedPassword \<Rightarrow>
                                           set_password users userIndex hashedPassword)
                                 else Inr users) of
                             Inl e \<Rightarrow> (Threw e, file)
                           | Inr users' \<Rightarrow>
                               (Responded (Json 200 (JObj
                                  [(''message'', JStr ''Profile updated successfully'')])),
                                Some (JSON_stringify L users')))))"

section \<open>The routes\<close>

text \<open>
  A guarded route runs authenticateToken first; its handler runs only on \<open>next()\<close>, with
  the \<open>req.user\<close> that the middleware set.
\<close>

datatype route = PostLogin | GetProtected | PutUpdateProfile

definition guarded ::
  "libs \<Rightarrow> string option \<Rightarrow> nat \<Rightarrow> request \<Rightarrow> (jsval \<Rightarrow> fs \<Rightarrow> outcome \<times> fs) \<Rightarrow> fs \<Rightarrow> outcome \<times> fs" where
  "guarded L env now req handler file =
     (case authenticateToken L env now req of
        Reply r \<Rightarrow> (Responded r, file)
      | Next user \<Rightarrow> handler user file)"

fun serve :: "libs \<Rightarrow> string option \<Rightarrow> nat \<Rightarrow> route \<Rightarrow> request \<Rightarrow> fs \<Rightarrow> outcome \<times> fs" where
  "serve L env now PostLogin req file = login L env now req file"
| "serve L env now GetProtected req file = guarded L env now req protected_endpoint file"
| "serve L env now PutUpdateProfile req file = guarded L env now req (update_profile L req) file"

section \<open>An example environment\<close>

text \<open>
  Concrete libraries and a concrete users.json on which the theorems below are run. The
  file text \<open>dup\<close> parses to two records that share the username ann;
  the password hash of a string \<open>p\<close> is \<open>hash:p\<close>, and, as in bcryptjs, compare
  and hash reject an argument that is not a string; the one token is the one signed for
  ann at time 0, valid for 3600 seconds.
\<close>

definition ann1 :: jsval where
  "ann1 = JObj [(''username'', JStr ''ann''), (''password'', JStr ''hash:pw1''),
                (''email'', JStr ''ann@one'')]"

definition ann2 :: jsval where
  "ann2 = JObj [(''username'', JStr ''ann''), (''password'', JStr ''hash:pw2''),
                (''email'', JStr ''ann@two'')]"

definition bob :: jsval where
  "bob = JObj [(''username'', JStr ''bob''), (''password'', JStr ''hash:pwb''),
               (''email'', JStr ''bob@one'')]"

definition demo_parse :: "string \<Rightarrow> jsval option" where
  "demo_parse data =
     (if data = ''dup'' then Some (JArr [ann1, ann2])
      else if data = ''three'' then Some (JArr [bob, ann1, ann2])
      else None)"

definition demo_stringify :: "jsval \<Rightarrow> string" where
  "demo_stringify v =
     (if v = JArr [ann1, ann2] then ''dup''
      else if v = JArr [bob, ann1, ann2] then ''three''
      else ''other'')"

definition demo_compare :: "jsval \<Rightarrow> jsval \<Rightarrow> error + bool" where
  "demo_compare s h =
     (case s of
        JStr p \<Rightarrow> (case h of JStr q \<Rightarrow> Inr (q = ''hash:'' @ p) | _ \<Rightarrow> Inl LibraryError)
      | _ \<Rightarrow> Inl LibraryError)"

definition demo_hash :: "jsval \<Rightarrow> nat \<Rightarrow> error + string" where
  "demo_hash s rounds = (case s of JStr p \<Rightarrow> Inr (''hash:'' @ p) | _ \<Rightarrow> Inl LibraryError)"

definition demo_sign :: "jsval \<Rightarrow> string \<Rightarrow> string \<Rightarrow> nat \<Rightarrow> string" where
  "demo_sign payload secret expiresIn now =
     (if payload = JObj [(''username'', JStr ''ann'')] \<and> expiresIn = ''1h'' \<and> now = 0
      then ''ann.'' @ secret else ''void'')"

definition demo_verify :: "string \<Rightarrow> string \<Rightarrow> nat \<Rightarrow> jsval option" where
  "demo_verify token secret now =
     (if token = ''ann.'' @ secret \<and> now < 3600
      then Some (JObj [(''username'', JStr ''ann''), (''iat'', JNum (Finite 0)),
                       (''exp'', JNum (Finite 3600))])
      else None)"

definition demo :: libs where
  "demo = \<lparr>JSON_parse = demo_parse, JSON_stringify = demo_stringify,
            bcrypt_compare = demo_compare, bcrypt_hash = demo_hash,
            jwt_sign = demo_sign, jwt_verify = demo_verify\<rparr>"

definition login_request :: "string \<Rightarrow> string \<Rightarrow> request" where
  "login_request username password =
     \<lparr>authorization = None,
      body = [(''username'', JStr username), (''password'', JStr password)]\<rparr>"

definition bearer_request :: "string \<Rightarrow> (string \<times> jsval) list \<Rightarrow> request" where
  "bearer_request token props = \<lparr>authorization = Some (''Bearer '' @ token), body = props\<rparr>"

section \<open>Facts about the model\<close>

lemmas demo_defs = demo_def demo_parse_def demo_stringify_def demo_compare_def demo_hash_def
  demo_sign_def demo_verify_def ann1_def ann2_def bob_def login_request_def bearer_request_def

lemma strict_eq_same: "strict_eq a b \<Longrightarrow> a = b"
  by (cases a; cases b; simp)

lemma find_user_first:
  "i < length xs \<Longrightarrow> same_username (xs ! i) t = Inr True \<Longrightarrow>
   \<forall>j<i. same_username (xs ! j) t = Inr False \<Longrightarrow> find_user xs t = Inr (xs ! i)"
proof (induction xs arbitrary: i)
  case Nil
  then show ?case by simp
next
  case (Cons x xs)
  show ?case
  proof (cases i)
    case 0
    with Cons.prems show ?thesis by simp
  next
    case (Suc k)
    from Cons.prems(3) Suc have hd: "same_username x t = Inr False" by auto
    from Cons.prems(3) Suc have tl: "\<forall>j<k. same_username (xs ! j) t = Inr False" by auto
    from Cons.prems Suc have "find_user xs t = Inr (xs ! k)"
      using Cons.IH [of k] tl by simp
    with hd Suc show ?thesis by simp
  qed
qed

lemma findIndex_from_first:
  "i < length xs \<Longrightarrow> same_username (xs ! i) t = Inr True \<Longrightarrow>
   \<forall>j<i. same_username (xs ! j) t = Inr False \<Longrightarrow>
   findIndex_from k xs t = Inr (int (k + i))"
proof (induction xs arbitrary: i k)
  case Nil
  then show ?case by simp
next
  case (Cons x xs)
  show ?case
  proof (cases i)
    case 0
    with Cons.prems show ?thesis by simp
  next
    case (Suc m)
    from Cons.prems(3) Suc have hd: "same_username x t = Inr False" by auto
    from Cons.prems(3) Suc have tl: "\<forall>j<m. same_username (xs ! j) t = Inr False" by auto
    from Cons.prems Suc have "findIndex_from (Suc k) xs t = Inr (int (Suc k + m))"
      using Cons.IH [of m "Suc k"] tl by simp
    with hd Suc show ?thesis by simp
  qed
qed

lemma find_user_none:
  "\<forall>x\<in>set xs. same_username x t = Inr False \<Longrightarrow> find_user xs t = Inr JUndefined"
  by (induction xs) simp_all

lemma findIndex_from_none:
  "\<forall>x\<in>set xs. same_username x t = Inr False \<Longrightarrow> findIndex_from k xs t = Inr (- 1)"
  by (induction xs arbitrary: k) simp_all

lemma login_keeps_file: "snd (login L env now req file) = file"
  by (simp add: login_def Let_def split: sum.splits)

lemma protected_keeps_file: "snd (guarded L env now req protected_endpoint file) = file"
  by (simp add: guarded_def protected_endpoint_def split: verdict.splits)

section \<open>The lookup\<close>

text \<open>
  C5. The lookup of /login (\<open>users.find\<close>) and of /update-profile
  (\<open>users.findIndex\<close>) is a linear scan of the loaded list. When the element at
  index \<open>i\<close> has the target username and no element before it has, \<open>find\<close> returns
  that element and \<open>findIndex\<close> returns \<open>i\<close>: the first match in list order. When
  no element has the target username, \<open>find\<close> returns undefined and \<open>findIndex\<close>
  returns \<open>-1\<close>: no match.
\<close>

theorem lookup_first_match:
  "(i < length xs \<and> same_username (xs ! i) t = Inr True \<and>
      (\<forall>j<i. same_username (xs ! j) t = Inr False)
    \<longrightarrow> users_find (JArr xs) t = Inr (xs ! i) \<and> users_findIndex (JArr xs) t = Inr (int i))
   \<and> ((\<forall>x\<in>set xs. same_username x t = Inr False)
    \<longrightarrow> users_find (JArr xs) t = Inr JUndefined \<and> users_findIndex (JArr xs) t = Inr (- 1))"
  using find_user_first [of i xs t] findIndex_from_first [of i xs t 0]
    find_user_none [of xs t] findIndex_from_none [of xs t 0]
  by (simp add: users_find_def users_findIndex_def)

theorem lookup_first_match_witness:
  "users_find (JArr [bob, ann1, ann2]) (JStr ''ann'') = Inr ann1
   \<and> users_findIndex (JArr [bob, ann1, ann2]) (JStr ''ann'') = Inr 1
   \<and> users_find (JArr [bob, ann1, ann2]) (JStr ''carl'') = Inr JUndefined
   \<and> users_findIndex (JArr [bob, ann1, ann2]) (JStr ''carl'') = Inr (- 1)"
proof -
  have a: "(1::nat) < length [bob, ann1, ann2]" by simp
  have b: "same_username ([bob, ann1, ann2] ! 1) (JStr ''ann'') = Inr True"
    by (simp add: same_username_def ann1_def own_prop_def)
  have c: "\<forall>j<1::nat. same_username ([bob, ann1, ann2] ! j) (JStr ''ann'') = Inr False"
    by (simp add: same_username_def bob_def own_prop_def)
  have d: "\<forall>x\<in>set [bob, ann1, ann2]. same_username x (JStr ''carl'') = Inr False"
    by (simp add: same_username_def bob_def ann1_def ann2_def own_prop_def)
  from lookup_first_match [of 1 "[bob, ann1, ann2]" "JStr ''ann''"] a b c
  have "users_find (JArr [bob, ann1, ann2]) (JStr ''ann'') = Inr ann1
    \<and> users_findIndex (JArr [bob, ann1, ann2]) (JStr ''ann'') = Inr 1" by simp
  moreover from lookup_first_match [of 0 "[bob, ann1, ann2]" "JStr ''carl''"] d
  have "users_find (JArr [bob, ann1, ann2]) (JStr ''carl'') = Inr JUndefined
    \<and> users_findIndex (JArr [bob, ann1, ann2]) (JStr ''carl'') = Inr (- 1)" by blast
  ultimately show ?thesis by simp
qed

section \<open>The routes that only read\<close>

text \<open>
  C7. POST /login and GET /protected-endpoint never write users.json: whatever the
  request, the file after the request is the file before it. Only PUT /update-profile
  can leave another file behind.
\<close>

theorem read_only_routes:
  "r \<noteq> PutUpdateProfile \<Longrightarrow> snd (serve L env now r req file) = file"
  by (cases r) (simp_all add: login_keeps_file protected_keeps_file)

theorem read_only_routes_witness:
  "snd (serve demo None 0 PostLogin (login_request ''ann'' ''pw1'') (Some ''dup'')) = Some ''dup''
   \<and> snd (serve demo None 5 GetProtected (bearer_request ''ann.supersecretkey'' []) (Some ''dup''))
       = Some ''dup''"
  using read_only_routes [of PostLogin demo None 0 "login_request ''ann'' ''pw1''" "Some ''dup''"]
    read_only_routes [of GetProtected demo None 5 "bearer_request ''ann.supersecretkey'' []" "Some ''dup''"]
  by simp

section \<open>The token middleware\<close>

text \<open>
  C3. On a route guarded by authenticateToken (GET /protected-endpoint and
  PUT /update-profile): when no token comes out of the Authorization header (the
  extraction gives undefined or the empty string) the response is status 401; when a
  token comes out and jwt.verify rejects it under JWT_SECRET the response is status 403;
  when jwt.verify accepts it the route does what its handler does with the verified
  payload as \<open>req.user\<close>; and the middleware calls \<open>next()\<close> in that last case only.
\<close>

theorem token_gate:
  "(extract_token (authorization req) = None \<or> extract_token (authorization req) = Some []
      \<longrightarrow> guarded L env now req handler file = (Responded (SendStatus 401), file))
   \<and> (\<forall>token. extract_token (authorization req) = Some token \<and> token \<noteq> [] \<and>
          jwt_verify L token (JWT_SECRET env) now = None
      \<longrightarrow> guarded L env now req handler file = (Responded (SendStatus 403), file))
   \<and> (\<forall>token user. extract_token (authorization req) = Some token \<and> token \<noteq> [] \<and>
          jwt_verify L token (JWT_SECRET env) now = Some user
      \<longrightarrow> guarded L env now req handler file = handler user file)
   \<and> (\<forall>user. authenticateToken L env now req = Next user \<longleftrightarrow>
          (\<exists>token. extract_token (authorization req) = Some token \<and> token \<noteq> [] \<and>
             jwt_verify L token (JWT_SECRET env) now = Some user))
   \<and> serve L env now GetProtected req file = guarded L env now req protected_endpoint file
   \<and> serve L env now PutUpdateProfile req file
        = guarded L env now req (update_profile L req) file"
  by (auto simp add: guarded_def authenticateToken_def split: option.splits)

theorem token_gate_witness:
  "serve demo None 5 GetProtected \<lparr>authorization = None, body = []\<rparr> (Some ''dup'')
     = (Responded (SendStatus 401), Some ''dup'')
   \<and> serve demo None 5 GetProtected \<lparr>authorization = Some ''Bearer'', body = []\<rparr> (Some ''dup'')
     = (Responded (SendStatus 401), Some ''dup'')
   \<and> serve demo None 5 PutUpdateProfile (bearer_request ''forged'' []) (Some ''dup'')
     = (Responded (SendStatus 403), Some ''dup'')
   \<and> serve demo None 5 GetProtected (bearer_request ''ann.supersecretkey'' []) (Some ''dup'')
     = protected_endpoint (JObj [(''username'', JStr ''ann''), (''iat'', JNum (Finite 0)),
                                 (''exp'', JNum (Finite 3600))]) (Some ''dup'')"
proof -
  have e1: "extract_token (authorization \<lparr>authorization = None, body = []\<rparr>) = None"
    by (simp add: extract_token_def)
  have e2: "extract_token (authorization \<lparr>authorization = Some ''Bearer'', body = []\<rparr>) = None"
    by (simp add: extract_token_def)
  have e3: "extract_token (authorization (bearer_request ''forged'' [])) = Some ''forged''"
    by (simp add: extract_token_def bearer_request_def)
  have v3: "jwt_verify demo ''forged'' (JWT_SECRET None) 5 = None"
    by (simp add: demo_def demo_verify_def JWT_SECRET_def)
  have e4: "extract_token (authorization (bearer_request ''ann.supersecretkey'' []))
              = Some ''ann.supersecretkey''"
    by (simp add: extract_token_def bearer_request_def)
  have v4: "jwt_verify demo ''ann.supersecretkey'' (JWT_SECRET None) 5
              = Some (JObj [(''username'', JStr ''ann''), (''iat'', JNum (Finite 0)),
                            (''exp'', JNum (Finite 3600))])"
    by (simp add: demo_def demo_verify_def JWT_SECRET_def)
  note g1 = token_gate [of "\<lparr>authorization = None, body = []\<rparr>" demo None 5
      protected_endpoint "Some ''dup''"]
  note g2 = token_gate [of "\<lparr>authorization = Some ''Bearer'', body = []\<rparr>" demo None 5
      protected_endpoint "Some ''dup''"]
  note g3 = token_gate [of "bearer_request ''forged'' []" demo None 5
      "update_profile demo (bearer_request ''forged'' [])" "Some ''dup''"]
  note g4 = token_gate [of "bearer_request ''ann.supersecretkey'' []" demo None 5
      protected_endpoint "Some ''dup''"]
  from g1 e1 have r1: "serve demo None 5 GetProtected \<lparr>authorization = None, body = []\<rparr>
      (Some ''dup'') = (Responded (SendStatus 401), Some ''dup'')" by simp
  from g2 e2 have r2: "serve demo None 5 GetProtected
      \<lparr>authorization = Some ''Bearer'', body = []\<rparr> (Some ''dup'')
      = (Responded (SendStatus 401), Some ''dup'')" by simp
  from g3 e3 v3 have r3: "serve demo None 5 PutUpdateProfile (bearer_request ''forged'' [])
      (Some ''dup'') = (Responded (SendStatus 403), Some ''dup'')" by simp
  from g4 e4 v4 have r4: "serve demo None 5 GetProtected
      (bearer_request ''ann.supersecretkey'' []) (Some ''dup'')
      = protected_endpoint (JObj [(''username'', JStr ''ann''), (''iat'', JNum (Finite 0)),
                                 (''exp'', JNum (Finite 3600))]) (Some ''dup'')" by simp
  from r1 r2 r3 r4 show ?thesis by simp
qed

section \<open>A store that cannot be read\<close>

lemma readUsers_unreadable:
  "file = None \<or> (\<exists>data. file = Some data \<and> JSON_parse L data = None) \<Longrightarrow>
   readUsers L file = JArr []"
  by (auto simp add: readUsers_def)

lemma login_empty_store:
  "readUsers L file = JArr [] \<Longrightarrow> login L env now req file = (Responded invalid_login, file)"
  by (simp add: login_def users_find_def)

lemma update_profile_empty_store:
  "readUsers L file = JArr [] \<Longrightarrow> user \<noteq> JNull \<Longrightarrow> user \<noteq> JUndefined \<Longrightarrow>
   update_profile L req user file
     = (Responded (Json 404 (JObj [(''message'', JStr ''User not found'')])), file)"
  by (cases user) (simp_all add: update_profile_def users_findIndex_def)

text \<open>
  C8. When users.json cannot be read, or its text cannot be parsed, readUsers returns
  the empty list. Then every POST /login is answered with status 400, every
  PUT /update-profile that passed the middleware is answered with status 404, and no
  route throws. (A payload that jwt.verify hands over is an object or a string, never
  null or undefined, which is what the two hypotheses on the middleware say.)
\<close>

theorem unreadable_store:
  assumes bad: "file = None \<or> (\<exists>data. file = Some data \<and> JSON_parse L data = None)"
    and payload: "authenticateToken L env now req \<noteq> Next JNull"
      "authenticateToken L env now req \<noteq> Next JUndefined"
  shows "readUsers L file = JArr []
    \<and> serve L env now PostLogin req file
        = (Responded (Json 400 (JObj [(''message'', JStr ''Invalid username or password'')])),
           file)
    \<and> (\<forall>user. authenticateToken L env now req = Next user
         \<longrightarrow> serve L env now PutUpdateProfile req file
               = (Responded (Json 404 (JObj [(''message'', JStr ''User not found'')])), file))
    \<and> (\<forall>r e. fst (serve L env now r req file) \<noteq> Threw e)"
proof -
  have empty: "readUsers L file = JArr []"
    using bad by (rule readUsers_unreadable)
  have post: "serve L env now PostLogin req file
      = (Responded (Json 400 (JObj [(''message'', JStr ''Invalid username or password'')])), file)"
    using login_empty_store [OF empty] by (simp add: invalid_login_def)
  have put: "serve L env now PutUpdateProfile req file
      = (Responded (Json 404 (JObj [(''message'', JStr ''User not found'')])), file)"
    if "authenticateToken L env now req = Next user" for user
  proof -
    from that payload have "user \<noteq> JNull" "user \<noteq> JUndefined" by auto
    with that show ?thesis
      by (simp add: guarded_def update_profile_empty_store [OF empty])
  qed
  have quiet: "fst (serve L env now r req file) \<noteq> Threw e" for r e
  proof (cases r)
    case PostLogin
    with post show ?thesis by simp
  next
    case GetProtected
    then show ?thesis
      by (simp add: guarded_def protected_endpoint_def split: verdict.splits)
  next
    case PutUpdateProfile
    show ?thesis
    proof (cases "authenticateToken L env now req")
      case (Reply x)
      with PutUpdateProfile show ?thesis by (simp add: guarded_def)
    next
      case (Next user)
      from put [OF Next] PutUpdateProfile show ?thesis by simp
    qed
  qed
  from empty post put quiet show ?thesis by blast
qed

theorem unreadable_store_witness:
  "readUsers demo (Some ''not json'') = JArr []
   \<and> serve demo None 5 PostLogin (bearer_request ''ann.supersecretkey''
         [(''username'', JStr ''ann''), (''password'', JStr ''pw1''),
          (''newPassword'', JStr ''new'')]) (Some ''not json'')
       = (Responded (Json 400 (JObj [(''message'', JStr ''Invalid username or password'')])),
          Some ''not json'')
   \<and> serve demo None 5 PutUpdateProfile (bearer_request ''ann.supersecretkey''
         [(''username'', JStr ''ann''), (''password'', JStr ''pw1''),
          (''newPassword'', JStr ''new'')]) (Some ''not json'')
       = (Responded (Json 404 (JObj [(''message'', JStr ''User not found'')])),
          Some ''not json'')"
proof -
  let ?req = "bearer_request ''ann.supersecretkey''
         [(''username'', JStr ''ann''), (''password'', JStr ''pw1''),
          (''newPassword'', JStr ''new'')]"
  have bad: "Some ''not json'' = None
      \<or> (\<exists>data. Some ''not json'' = Some data \<and> JSON_parse demo data = None)"
    by (simp add: demo_def demo_parse_def)
  have auth: "authenticateToken demo None 5 ?req
      = Next (JObj [(''username'', JStr ''ann''), (''iat'', JNum (Finite 0)),
                    (''exp'', JNum (Finite 3600))])"
    by (simp add: authenticateToken_def extract_token_def bearer_request_def demo_def
        demo_verify_def JWT_SECRET_def)
  have p1: "authenticateToken demo None 5 ?req \<noteq> Next JNull" by (simp add: auth)
  have p2: "authenticateToken demo None 5 ?req \<noteq> Next JUndefined" by (simp add: auth)
  from unreadable_store [OF bad p1 p2] auth show ?thesis by simp
qed

section \<open>What POST /login answers\<close>

lemma login_no_match:
  assumes "readUsers L file = JArr xs"
    and "\<forall>x\<in>set xs. same_username x (own_prop (body req) ''username'') = Inr False"
  shows "login L env now req file = (Responded invalid_login, file)"
  using assms find_user_none [of xs "own_prop (body req) ''username''"]
  by (simp add: login_def users_find_def)

lemma login_first_match:
  assumes "readUsers L file = JArr xs"
    and "i < length xs" and "xs ! i = JObj fs"
    and "same_username (JObj fs) (own_prop (body req) ''username'') = Inr True"
    and "\<forall>j<i. same_username (xs ! j) (own_prop (body req) ''username'') = Inr False"
  shows "login L env now req file =
    (case bcrypt_compare L (own_prop (body req) ''password'') (own_prop fs ''password'') of
       Inl e \<Rightarrow> (Threw e, file)
     | Inr isMatch \<Rightarrow>
         if isMatch
         then (Responded (Json 200 (JObj
                 [(''token'', JStr (jwt_sign L (JObj [(''username'', own_prop fs ''username'')])
                                      (JWT_SECRET env) ''1h'' now)),
                  (''user'', JObj [(''username'', own_prop fs ''username''),
                                   (''email'', own_prop fs ''email'')])])), file)
         else (Responded invalid_login, file))"
proof -
  from assms have "find_user xs (own_prop (body req) ''username'') = Inr (JObj fs)"
    using find_user_first [of i xs "own_prop (body req) ''username''"] by simp
  with assms(1) show ?thesis
    by (simp add: login_def users_find_def split: sum.splits)
qed

lemma same_username_record:
  "same_username (JObj fs) t = Inr True \<Longrightarrow> own_prop fs ''username'' = t"
  by (simp add: same_username_def strict_eq_same)

text \<open>
  C1, as the code has it. When the first record in list order whose username is the
  request's username has a stored hash that bcrypt.compare accepts for the request's
  password, POST /login answers with status 200 and a JSON body holding the token that
  jwt.sign makes from the payload with that username, JWT_SECRET and the lifetime 1h,
  and a user object with that record's username and email. The file is left as it was.
\<close>

theorem login_issues_token:
  assumes "readUsers L file = JArr xs"
    and "i < length xs" and "xs ! i = JObj fs"
    and "same_username (JObj fs) (own_prop (body req) ''username'') = Inr True"
    and "\<forall>j<i. same_username (xs ! j) (own_prop (body req) ''username'') = Inr False"
    and "bcrypt_compare L (own_prop (body req) ''password'') (own_prop fs ''password'') = Inr True"
  shows "login L env now req file =
      (Responded (Json 200 (JObj
         [(''token'', JStr (jwt_sign L (JObj [(''username'', own_prop (body req) ''username'')])
                              (JWT_SECRET env) ''1h'' now)),
          (''user'', JObj [(''username'', own_prop (body req) ''username''),
                           (''email'', own_prop fs ''email'')])])), file)
    \<and> own_prop fs ''username'' = own_prop (body req) ''username''"
  using login_first_match [OF assms(1-5), of env now] assms(6) same_username_record [OF assms(4)]
  by simp

theorem login_issues_token_witness:
  "login demo None 0 (login_request ''ann'' ''pw1'') (Some ''dup'') =
     (Responded (Json 200 (JObj
        [(''token'', JStr ''ann.supersecretkey''),
         (''user'', JObj [(''username'', JStr ''ann''), (''email'', JStr ''ann@one'')])])),
      Some ''dup'')"
proof -
  let ?req = "login_request ''ann'' ''pw1''"
  let ?fs = "[(''username'', JStr ''ann''), (''password'', JStr ''hash:pw1''),
              (''email'', JStr ''ann@one'')]"
  have a: "readUsers demo (Some ''dup'') = JArr [ann1, ann2]"
    by (simp add: readUsers_def demo_def demo_parse_def)
  have b: "(0::nat) < length [ann1, ann2]" by simp
  have c: "[ann1, ann2] ! 0 = JObj ?fs" by (simp add: ann1_def)
  have d: "same_username (JObj ?fs) (own_prop (body ?req) ''username'') = Inr True"
    by (simp add: same_username_def own_prop_def login_request_def)
  have e: "\<forall>j<0::nat. same_username ([ann1, ann2] ! j) (own_prop (body ?req) ''username'')
      = Inr False" by simp
  have f: "bcrypt_compare demo (own_prop (body ?req) ''password'') (own_prop ?fs ''password'')
      = Inr True"
    by (simp add: demo_def demo_compare_def own_prop_def login_request_def)
  from login_issues_token [OF a b c d e f, of None 0] show ?thesis
    by (simp add: own_prop_def login_request_def demo_def demo_sign_def JWT_SECRET_def)
qed

text \<open>
  The claim C1 as it is written asks only for some record with the username whose hash
  accepts the password. In the example below that record is the second of two with the
  username ann; the handler compares against the first one and answers with status 400.
\<close>

theorem login_some_record_counterexample:
  "readUsers demo (Some ''dup'') = JArr [ann1, ann2]
   \<and> same_username ann2 (own_prop (body (login_request ''ann'' ''pw2'')) ''username'') = Inr True
   \<and> get_prop ann2 ''password'' = Inr (JStr ''hash:pw2'')
   \<and> bcrypt_compare demo (own_prop (body (login_request ''ann'' ''pw2'')) ''password'')
        (JStr ''hash:pw2'') = Inr True
   \<and> login demo None 0 (login_request ''ann'' ''pw2'') (Some ''dup'') =
       (Responded (Json 400 (JObj [(''message'', JStr ''Invalid username or password'')])),
        Some ''dup'')"
  by (simp add: login_def readUsers_def users_find_def same_username_def own_prop_def
      invalid_login_def demo_defs)

text \<open>
  C2, as the code has it. POST /login answers with status 400 and the body
  \<open>{message: 'Invalid username or password'}\<close>, which holds no token, when no element
  of the loaded list has the request's username, and when the first record in list order
  with that username has a stored hash for which bcrypt.compare gives false.
\<close>

theorem login_rejects:
  "(readUsers L file = JArr xs \<and>
      (\<forall>x\<in>set xs. same_username x (own_prop (body req) ''username'') = Inr False)
    \<longrightarrow> login L env now req file =
          (Responded (Json 400 (JObj [(''message'', JStr ''Invalid username or password'')])),
           file))
   \<and> (readUsers L file = JArr xs \<and> i < length xs \<and> xs ! i = JObj fs \<and>
      same_username (JObj fs) (own_prop (body req) ''username'') = Inr True \<and>
      (\<forall>j<i. same_username (xs ! j) (own_prop (body req) ''username'') = Inr False) \<and>
      bcrypt_compare L (own_prop (body req) ''password'') (own_prop fs ''password'') = Inr False
    \<longrightarrow> login L env now req file =
          (Responded (Json 400 (JObj [(''message'', JStr ''Invalid username or password'')])),
           file))"
proof (intro conjI impI)
  assume h: "readUsers L file = JArr xs \<and>
      (\<forall>x\<in>set xs. same_username x (own_prop (body req) ''username'') = Inr False)"
  from h have h1: "readUsers L file = JArr xs" by simp
  from h have h2: "\<forall>x\<in>set xs. same_username x (own_prop (body req) ''username'') = Inr False"
    by simp
  from login_no_match [OF h1 h2, of env now] show "login L env now req file =
      (Responded (Json 400 (JObj [(''message'', JStr ''Invalid username or password'')])), file)"
    by (simp add: invalid_login_def)
next
  assume h: "readUsers L file = JArr xs \<and> i < length xs \<and> xs ! i = JObj fs \<and>
      same_username (JObj fs) (own_prop (body req) ''username'') = Inr True \<and>
      (\<forall>j<i. same_username (xs ! j) (own_prop (body req) ''username'') = Inr False) \<and>
      bcrypt_compare L (own_prop (body req) ''password'') (own_prop fs ''password'') = Inr False"
  from h have h1: "readUsers L file = JArr xs" and h2: "i < length xs"
    and h3: "xs ! i = JObj fs"
    and h4: "same_username (JObj fs) (own_prop (body req) ''username'') = Inr True"
    and h5: "\<forall>j<i. same_username (xs ! j) (own_prop (body req) ''username'') = Inr False"
    and h6: "bcrypt_compare L (own_prop (body req) ''password'') (own_prop fs ''password'')
               = Inr False"
    by simp_all
  from login_first_match [OF h1 h2 h3 h4 h5, of env now] h6 show "login L env now req file =
      (Responded (Json 400 (JObj [(''message'', JStr ''Invalid username or password'')])), file)"
    by (simp add: invalid_login_def)
qed

theorem login_rejects_witness:
  "login demo None 0 (login_request ''carl'' ''pw1'') (Some ''dup'') =
     (Responded (Json 400 (JObj [(''message'', JStr ''Invalid username or password'')])),
      Some ''dup'')
   \<and> login demo None 0 (login_request ''ann'' ''pw2'') (Some ''three'') =
     (Responded (Json 400 (JObj [(''message'', JStr ''Invalid username or password'')])),
      Some ''three'')"
proof -
  let ?r1 = "login_request ''carl'' ''pw1''"
  let ?r2 = "login_request ''ann'' ''pw2''"
  let ?fs = "[(''username'', JStr ''ann''), (''password'', JStr ''hash:pw1''),
              (''email'', JStr ''ann@one'')]"
  have a1: "readUsers demo (Some ''dup'') = JArr [ann1, ann2]"
    by (simp add: readUsers_def demo_def demo_parse_def)
  have b1: "\<forall>x\<in>set [ann1, ann2]. same_username x (own_prop (body ?r1) ''username'') = Inr False"
    by (simp add: same_username_def own_prop_def login_request_def ann1_def ann2_def)
  have a2: "readUsers demo (Some ''three'') = JArr [bob, ann1, ann2]"
    by (simp add: readUsers_def demo_def demo_parse_def)
  have b2: "(1::nat) < length [bob, ann1, ann2]" by simp
  have c2: "[bob, ann1, ann2] ! 1 = JObj ?fs" by (simp add: ann1_def)
  have d2: "same_username (JObj ?fs) (own_prop (body ?r2) ''username'') = Inr True"
    by (simp add: same_username_def own_prop_def login_request_def)
  have e2: "\<forall>j<1::nat. same_username ([bob, ann1, ann2] ! j) (own_prop (body ?r2) ''username'')
      = Inr False"
    by (simp add: same_username_def own_prop_def login_request_def bob_def)
  have f2: "bcrypt_compare demo (own_prop (body ?r2) ''password'') (own_prop ?fs ''password'')
      = Inr False"
    by (simp add: demo_def demo_compare_def own_prop_def login_request_def)
  from login_rejects [of demo "Some ''dup''" "[ann1, ann2]" ?r1 None 0 0 "[]"] a1 b1
  have r1: "login demo None 0 ?r1 (Some ''dup'') =
     (Responded (Json 400 (JObj [(''message'', JStr ''Invalid username or password'')])),
      Some ''dup'')" by blast
  from login_rejects [of demo "Some ''three''" "[bob, ann1, ann2]" ?r2 None 0 1 ?fs]
    a2 b2 c2 d2 e2 f2
  have r2: "login demo None 0 ?r2 (Some ''three'') =
     (Responded (Json 400 (JObj [(''message'', JStr ''Invalid username or password'')])),
      Some ''three'')" by blast
  from r1 r2 show ?thesis by simp
qed

text \<open>
  The claim C2 as it is written asks for status 400 as soon as some record with the
  username has a hash that does not accept the password. In the example below that
  record is the second of two with the username ann; the first one accepts the
  password, and the handler answers with status 200 and a token.
\<close>

theorem login_some_mismatch_counterexample:
  "readUsers demo (Some ''dup'') = JArr [ann1, ann2]
   \<and> same_username ann2 (own_prop (body (login_request ''ann'' ''pw1'')) ''username'') = Inr True
   \<and> get_prop ann2 ''password'' = Inr (JStr ''hash:pw2'')
   \<and> bcrypt_compare demo (own_prop (body (login_request ''ann'' ''pw1'')) ''password'')
        (JStr ''hash:pw2'') = Inr False
   \<and> login demo None 0 (login_request ''ann'' ''pw1'') (Some ''dup'') =
       (Responded (Json 200 (JObj
          [(''token'', JStr ''ann.supersecretkey''),
           (''user'', JObj [(''username'', JStr ''ann''), (''email'', JStr ''ann@one'')])])),
        Some ''dup'')"
  by (simp add: login_def readUsers_def users_find_def same_username_def own_prop_def
      JWT_SECRET_def demo_defs)

lemma login_compare_rejects:
  assumes "readUsers L file = JArr xs"
    and "i < length xs" and "xs ! i = JObj fs"
    and "same_username (JObj fs) (own_prop (body req) ''username'') = Inr True"
    and "\<forall>j<i. same_username (xs ! j) (own_prop (body req) ''username'') = Inr False"
    and "bcrypt_compare L (own_prop (body req) ''password'') (own_prop fs ''password'') = Inl e"
  shows "login L env now req file = (Threw e, file)"
  using login_first_match [OF assms(1-5), of env now] assms(6) by simp

text \<open>
  C9. The two failures of POST /login are not answered alike. Against the file with the
  two records of ann, the request with the username carl, which no record has, is
  answered with status 400 and the body \<open>{message: 'Invalid username or password'}\<close>.
  The request with the username ann and no password finds a record, and the comparison of
  its password fails: bcrypt.compare rejects an argument that is not a string, the
  \<open>await\<close> throws, nothing catches it, and the handler sends no response of its own.
  The two outcomes differ, so the requester learns that ann is a stored username.
\<close>

theorem login_failures_told_apart:
  "login demo None 0 (login_request ''carl'' ''pw1'') (Some ''dup'') =
     (Responded (Json 400 (JObj [(''message'', JStr ''Invalid username or password'')])),
      Some ''dup'')
   \<and> login demo None 0 \<lparr>authorization = None, body = [(''username'', JStr ''ann'')]\<rparr>
       (Some ''dup'') = (Threw LibraryError, Some ''dup'')
   \<and> login demo None 0
       \<lparr>authorization = None,
        body = [(''username'', JStr ''ann''), (''password'', JNum (Finite 5))]\<rparr>
       (Some ''dup'') = (Threw LibraryError, Some ''dup'')
   \<and> fst (login demo None 0 (login_request ''carl'' ''pw1'') (Some ''dup''))
       \<noteq> fst (login demo None 0 \<lparr>authorization = None, body = [(''username'', JStr ''ann'')]\<rparr>
             (Some ''dup''))"
  by (simp add: login_def readUsers_def users_find_def same_username_def own_prop_def
      invalid_login_def demo_defs)

section \<open>What PUT /update-profile writes\<close>

lemma update_profile_first_match:
  assumes "get_prop user ''username'' = Inr t"
    and "readUsers L file = JArr xs"
    and "i < length xs" and "xs ! i = JObj fs"
    and "same_username (JObj fs) t = Inr True"
    and "\<forall>j<i. same_username (xs ! j) t = Inr False"
  shows "update_profile L req user file =
    (if truthy (own_prop (body req) ''newPassword'')
     then (case bcrypt_hash L (own_prop (body req) ''newPassword'') 10 of
             Inl e \<Rightarrow> (Threw e, file)
           | Inr h \<Rightarrow>
               (Responded (Json 200 (JObj [(''message'', JStr ''Profile updated successfully'')])),
                Some (JSON_stringify L
                  (JArr (xs[i := JObj (AList.update ''password'' (JStr h) fs)])))))
     else (Responded (Json 200 (JObj [(''message'', JStr ''Profile updated successfully'')])),
           Some (JSON_stringify L (JArr xs))))"
proof -
  from assms have "findIndex_from 0 xs t = Inr (int i)"
    using findIndex_from_first [of i xs t 0] by simp
  with assms(1-4) show ?thesis
    by (simp add: update_profile_def users_findIndex_def set_password_def split: sum.splits)
qed




text \<open>
  C10. Take a PUT /update-profile request that passed the middleware, whose token
  username is found in the loaded list and whose body holds no newPassword (none, or a
  value that \<open>if (newPassword)\<close> takes for false). The handler answers with status 200
  and the message 'Profile updated successfully', and it still writes the file: the
  serialisation of the loaded list, no record changed. Where parsing that serialisation
  gives the list back, the store read after the request is the store read before it.
\<close>

theorem update_profile_without_password:
  assumes "authenticateToken L env now req = Next user"
    and "get_prop user ''username'' = Inr t"
    and "readUsers L file = JArr xs"
    and "i < length xs" and "xs ! i = JObj fs"
    and "same_username (JObj fs) t = Inr True"
    and "\<forall>j<i. same_username (xs ! j) t = Inr False"
    and "\<not> truthy (own_prop (body req) ''newPassword'')"
  shows "serve L env now PutUpdateProfile req file =
        (Responded (Json 200 (JObj [(''message'', JStr ''Profile updated successfully'')])),
         Some (JSON_stringify L (JArr xs)))
    \<and> (JSON_parse L (JSON_stringify L (JArr xs)) = Some (JArr xs)
        \<longrightarrow> readUsers L (snd (serve L env now PutUpdateProfile req file)) = readUsers L file)"
  using update_profile_first_match [OF assms(2-7), of req] assms(1,3,8)
  by (simp add: guarded_def readUsers_def)

theorem update_profile_without_password_witness:
  "serve demo None 5 PutUpdateProfile (bearer_request ''ann.supersecretkey'' []) (Some ''three'')
     = (Responded (Json 200 (JObj [(''message'', JStr ''Profile updated successfully'')])),
        Some ''three'')
   \<and> readUsers demo (snd (serve demo None 5 PutUpdateProfile
        (bearer_request ''ann.supersecretkey'' []) (Some ''three'')))
     = readUsers demo (Some ''three'')"
proof -
  let ?req = "bearer_request ''ann.supersecretkey'' []"
  let ?user = "JObj [(''username'', JStr ''ann''), (''iat'', JNum (Finite 0)),
                     (''exp'', JNum (Finite 3600))]"
  let ?fs = "[(''username'', JStr ''ann''), (''password'', JStr ''hash:pw1''),
              (''email'', JStr ''ann@one'')]"
  have a: "authenticateToken demo None 5 ?req = Next ?user"
    by (simp add: authenticateToken_def extract_token_def bearer_request_def demo_def
        demo_verify_def JWT_SECRET_def)
  have b: "get_prop ?user ''username'' = Inr (JStr ''ann'')" by (simp add: own_prop_def)
  have c: "readUsers demo (Some ''three'') = JArr [bob, ann1, ann2]"
    by (simp add: readUsers_def demo_def demo_parse_def)
  have d: "(1::nat) < length [bob, ann1, ann2]" by simp
  have e: "[bob, ann1, ann2] ! 1 = JObj ?fs" by (simp add: ann1_def)
  have f: "same_username (JObj ?fs) (JStr ''ann'') = Inr True"
    by (simp add: same_username_def own_prop_def)
  have g: "\<forall>j<1::nat. same_username ([bob, ann1, ann2] ! j) (JStr ''ann'') = Inr False"
    by (simp add: same_username_def own_prop_def bob_def)
  have h: "\<not> truthy (own_prop (body ?req) ''newPassword'')"
    by (simp add: own_prop_def bearer_request_def)
  have s: "JSON_stringify demo (JArr [bob, ann1, ann2]) = ''three''"
    by (simp add: demo_def demo_stringify_def ann1_def ann2_def bob_def)
  have p: "JSON_parse demo ''three'' = Some (JArr [bob, ann1, ann2])"
    by (simp add: demo_def demo_parse_def)
  from update_profile_without_password [OF a b c d e f g h] s p show ?thesis by simp
qed

section \<open>A token from /login at the middleware\<close>

lemma split_sp_no_space: "CHR '' '' \<notin> set s \<Longrightarrow> split_sp s = [s]"
  by (induction s) auto

lemma extract_bearer:
  "CHR '' '' \<notin> set token \<Longrightarrow> extract_token (Some (''Bearer '' @ token)) = Some token"
  by (simp add: extract_token_def split_sp_no_space)

lemma login_token_is_signed:
  assumes "login L env now req file = (Responded (Json 200 b), file')"
  shows "\<exists>name email. b = JObj
      [(''token'', JStr (jwt_sign L (JObj [(''username'', name)]) (JWT_SECRET env) ''1h'' now)),
       (''user'', JObj [(''username'', name), (''email'', email)])]"
  using assms
  by (auto simp add: login_def Let_def invalid_login_def split: sum.splits if_splits)

text \<open>
  What the code does with a token of its own: the token in the answer of /login is the
  one jwt.sign made from the payload with the record's username, JWT_SECRET and the
  lifetime 1h; presented in the header \<open>Bearer token\<close> (a token without a space comes
  out of the header whole), it is that token and the same JWT_SECRET that the middleware
  hands to jwt.verify, whose verdict decides between status 403 and \<open>next()\<close>.
  Whether jwt.verify accepts what jwt.sign signed is the library's matter.
\<close>

lemma issued_token_at_middleware:
  assumes "login L env now req file =
      (Responded (Json 200 (JObj [(''token'', JStr token),
         (''user'', JObj [(''username'', name), (''email'', email)])])), file')"
    and "token \<noteq> []" and "CHR '' '' \<notin> set token"
  shows "token = jwt_sign L (JObj [(''username'', name)]) (JWT_SECRET env) ''1h'' now
    \<and> authenticateToken L env later \<lparr>authorization = Some (''Bearer '' @ token), body = b\<rparr>
        = (case jwt_verify L token (JWT_SECRET env) later of
             None \<Rightarrow> Reply (SendStatus 403)
           | Some decoded \<Rightarrow> Next decoded)"
proof -
  from login_token_is_signed [OF assms(1)]
  have "token = jwt_sign L (JObj [(''username'', name)]) (JWT_SECRET env) ''1h'' now"
    by simp
  moreover from assms(2,3) extract_bearer [of token]
  have "authenticateToken L env later \<lparr>authorization = Some (''Bearer '' @ token), body = b\<rparr>
        = (case jwt_verify L token (JWT_SECRET env) later of
             None \<Rightarrow> Reply (SendStatus 403)
           | Some decoded \<Rightarrow> Next decoded)"
    by (simp add: authenticateToken_def)
  ultimately show ?thesis by simp
qed

end
